theory Spec2Isabelle
  imports Complex_Main
begin

section \<open>JavaScript values read by the dashboard\<close>

text \<open>
  The page \<^verbatim>\<open>src/pages/Home.tsx\<close> receives agent payloads as untyped JSON and only casts
  them (\<^verbatim>\<open>as ValidationResult\<close>), so the model keeps them as run-time values.  A number is a
  double: not-a-number, the two infinities, or a finite value, given here by its rational
  value (no arithmetic is done on payload numbers, only the truthiness test).
\<close>

datatype jsnum = NaN | PosInfinity | NegInfinity | Finite rat

datatype jsval =
    JUndefined
  | JNull
  | JBool bool
  | JNumber jsnum
  | JString string
  | JArray "jsval list"
  | JObject "(string \<times> jsval) list"

text \<open>What a \<^verbatim>\<open>try\<close> block of the page can catch, or what escapes it.\<close>

datatype js_error =
    TypeError
  | SyntaxError
  | Error string
  | NetworkFailure

text \<open>The truthiness used by \<^verbatim>\<open>&&\<close>, \<^verbatim>\<open>||\<close>, \<^verbatim>\<open>!\<close> and \<^verbatim>\<open>if\<close>.\<close>

fun truthy :: "jsval \<Rightarrow> bool" where
  "truthy JUndefined = False"
| "truthy JNull = False"
| "truthy (JBool b) = b"
| "truthy (JNumber n) = (n \<noteq> NaN \<and> n \<noteq> Finite 0)"
| "truthy (JString s) = (s \<noteq> [])"
| "truthy (JArray xs) = True"
| "truthy (JObject fs) = True"

text \<open>
  Property read \<^verbatim>\<open>v.k\<close>, for the property names this page reads (\<^verbatim>\<open>response\<close>,
  \<^verbatim>\<open>result\<close>, \<^verbatim>\<open>final_recommendation\<close>, \<^verbatim>\<open>validation_summary\<close>, \<^verbatim>\<open>risk_level\<close>,
  \<^verbatim>\<open>expense_status\<close>): reading from \<^verbatim>\<open>undefined\<close> or \<^verbatim>\<open>null\<close> throws a TypeError, an
  object yields the stored value or \<^verbatim>\<open>undefined\<close>, and booleans, numbers, strings and
  arrays have none of these names, so the read yields \<^verbatim>\<open>undefined\<close>.
\<close>

fun getProp :: "jsval \<Rightarrow> string \<Rightarrow> js_error + jsval" where
  "getProp JUndefined k = Inl TypeError"
| "getProp JNull k = Inl TypeError"
| "getProp (JObject fs) k = Inr (case map_of fs k of None \<Rightarrow> JUndefined | Some v \<Rightarrow> v)"
| "getProp v k = Inr JUndefined"

section \<open>The agent gateway and the platform functions\<close>

text \<open>
  \<^verbatim>\<open>callAIAgent\<close> (imported from \<^verbatim>\<open>@/utils/aiAgent\<close>) returns a success flag, an optional
  response envelope and an optional error string, or its promise rejects.
\<close>

record AgentResult =
  success :: bool
  response :: jsval
  error :: "string option"

text \<open>
  What a handler finds around it when it runs: the platform's \<^verbatim>\<open>JSON.parse\<close>,
  \<^verbatim>\<open>parseFloat\<close> and number-to-string conversion, and the remote gateway, which maps a
  message and an agent identifier to the outcome of the call.
\<close>

record Env =
  JSON_parse :: "string \<Rightarrow> js_error + jsval"
  parseFloat :: "string \<Rightarrow> jsnum"
  numberToString :: "jsnum \<Rightarrow> string"
  callAIAgent :: "string \<Rightarrow> string \<Rightarrow> js_error + AgentResult"

definition EXPENSE_VALIDATION_COORDINATOR :: string where
  "EXPENSE_VALIDATION_COORDINATOR = ''696a2da7a5272eccb326c65d''"

definition MANAGER_APPROVAL :: string where
  "MANAGER_APPROVAL = ''696a2dc7a5272eccb326c66b''"

section \<open>Locating the result payload in the envelope\<close>

text \<open>
  \<^verbatim>\<open>handleSubmitExpense\<close>, after \<^verbatim>\<open>result.success && result.response\<close>:
  if \<^verbatim>\<open>typeof result.response.response === 'string'\<close> the string is parsed and the
  \<^verbatim>\<open>result\<close> property of the parsed value is taken; else if \<^verbatim>\<open>result.response.result\<close> is
  truthy it is taken; else \<^verbatim>\<open>Error('Invalid response structure')\<close> is thrown.
\<close>

definition parseValidationData :: "(string \<Rightarrow> js_error + jsval) \<Rightarrow> jsval \<Rightarrow> js_error + jsval" where
  "parseValidationData parse resp =
     (case getProp resp ''response'' of
        Inl e \<Rightarrow> Inl e
      | Inr (JString txt) \<Rightarrow>
          (case parse txt of
             Inl e \<Rightarrow> Inl e
           | Inr parsedResponse \<Rightarrow> getProp parsedResponse ''result'')
      | Inr other \<Rightarrow>
          (case getProp resp ''result'' of
             Inl e \<Rightarrow> Inl e
           | Inr r \<Rightarrow> if truthy r then Inr r else Inl (Error ''Invalid response structure'')))"

text \<open>\<^verbatim>\<open>handleApprovalDecision\<close> repeats the same three branches for its own payload.\<close>

definition parseApprovalData :: "(string \<Rightarrow> js_error + jsval) \<Rightarrow> jsval \<Rightarrow> js_error + jsval" where
  "parseApprovalData parse resp =
     (case getProp resp ''response'' of
        Inl e \<Rightarrow> Inl e
      | Inr (JString txt) \<Rightarrow>
          (case parse txt of
             Inl e \<Rightarrow> Inl e
           | Inr parsedResponse \<Rightarrow> getProp parsedResponse ''result'')
      | Inr other \<Rightarrow>
          (case getProp resp ''result'' of
             Inl e \<Rightarrow> Inl e
           | Inr r \<Rightarrow> if truthy r then Inr r else Inl (Error ''Invalid response structure'')))"

section \<open>The view state of the page\<close>

text \<open>The submission form (\<^verbatim>\<open>expenseData\<close>): four strings.\<close>

record ExpenseData =
  vendor :: string
  amount :: string
  date :: string
  category :: string

text \<open>
  \<^verbatim>\<open>interface ExpenseRecord\<close>.  The field \<^verbatim>\<open>id\<close> is written \<open>id'\<close>.  The types of
  \<^verbatim>\<open>status\<close> and \<^verbatim>\<open>riskScore\<close> are unions of string literals in the source, but both are
  filled with payload values that are never checked, so they hold a run-time value here.
\<close>

record ExpenseRecord =
  id' :: string
  employee :: string
  vendor :: string
  amount :: jsnum
  date :: string
  category :: string
  status :: jsval
  riskScore :: jsval
  validationResult :: "jsval option"
  receiptImage :: "string option"

text \<open>
  The \<^verbatim>\<open>useState\<close> cells of \<^verbatim>\<open>Home\<close> that the two handlers and the filters read or
  write (\<^verbatim>\<open>null\<close> in \<^verbatim>\<open>validationResult\<close> and \<^verbatim>\<open>approvalResult\<close> is \<open>JNull\<close>).
\<close>

record HomeState =
  expenseData :: ExpenseData
  isValidating :: bool
  validationStage :: nat
  validationResult :: jsval
  validationError :: "string option"
  expenses :: "ExpenseRecord list"
  selectedExpense :: "ExpenseRecord option"
  statusFilter :: string
  managerRationale :: string
  isProcessingApproval :: bool
  approvalResult :: jsval

definition initialExpenses :: "ExpenseRecord list" where
  "initialExpenses = []"

definition initialState :: HomeState where
  "initialState =
     \<lparr> expenseData = \<lparr> ExpenseData.vendor = '''', ExpenseData.amount = '''',
                       ExpenseData.date = '''', ExpenseData.category = ''Business Meal'' \<rparr>,
       isValidating = False,
       validationStage = 0,
       HomeState.validationResult = JNull,
       validationError = None,
       expenses = initialExpenses,
       selectedExpense = None,
       statusFilter = ''all'',
       managerRationale = '''',
       isProcessingApproval = False,
       approvalResult = JNull \<rparr>"

datatype field = Vendor | Amount | Date | Category

text \<open>\<^verbatim>\<open>handleExpenseDataChange(field, value)\<close>, at its four call sites.\<close>

fun handleExpenseDataChange :: "field \<Rightarrow> string \<Rightarrow> HomeState \<Rightarrow> HomeState" where
  "handleExpenseDataChange Vendor v s = s\<lparr>expenseData := (expenseData s)\<lparr>ExpenseData.vendor := v\<rparr>\<rparr>"
| "handleExpenseDataChange Amount v s = s\<lparr>expenseData := (expenseData s)\<lparr>ExpenseData.amount := v\<rparr>\<rparr>"
| "handleExpenseDataChange Date v s = s\<lparr>expenseData := (expenseData s)\<lparr>ExpenseData.date := v\<rparr>\<rparr>"
| "handleExpenseDataChange Category v s = s\<lparr>expenseData := (expenseData s)\<lparr>ExpenseData.category := v\<rparr>\<rparr>"

section \<open>Guards and filters\<close>

text \<open>
  The submit button:
  \<^verbatim>\<open>disabled={isValidating || !expenseData.vendor || !expenseData.amount || !expenseData.date}\<close>.
\<close>

definition submitDisabled :: "HomeState \<Rightarrow> bool" where
  "submitDisabled s =
     (isValidating s
      \<or> \<not> truthy (JString (ExpenseData.vendor (expenseData s)))
      \<or> \<not> truthy (JString (ExpenseData.amount (expenseData s)))
      \<or> \<not> truthy (JString (ExpenseData.date (expenseData s))))"

text \<open>The approve and reject buttons: \<^verbatim>\<open>disabled={isProcessingApproval || !managerRationale}\<close>.\<close>

definition decisionDisabled :: "HomeState \<Rightarrow> bool" where
  "decisionDisabled s = (isProcessingApproval s \<or> \<not> truthy (JString (managerRationale s)))"

text \<open>\<^verbatim>\<open>filteredExpenses\<close> and \<^verbatim>\<open>pendingExpenses\<close>.\<close>

definition filteredExpenses :: "ExpenseRecord list \<Rightarrow> string \<Rightarrow> ExpenseRecord list" where
  "filteredExpenses exps flt =
     filter (\<lambda>exp. if flt = ''all'' then True else status exp = JString flt) exps"

definition pendingExpenses :: "ExpenseRecord list \<Rightarrow> ExpenseRecord list" where
  "pendingExpenses exps =
     filter (\<lambda>e. status e = JString ''reviewing'' \<or> status e = JString ''pending'') exps"

section \<open>Submission\<close>

text \<open>\<^verbatim>\<open>String(n)\<close> for a natural number: its decimal digits.\<close>

definition digit :: "nat \<Rightarrow> char" where
  "digit d = ''0123456789'' ! d"

fun String_nat :: "nat \<Rightarrow> string" where
  "String_nat n = (if n < 10 then [digit n] else String_nat (n div 10) @ [digit (n mod 10)])"

declare String_nat.simps [simp del]

text \<open>\<^verbatim>\<open>s.padStart(n, c)\<close> with a one-character pad string.\<close>

definition padStart :: "nat \<Rightarrow> char \<Rightarrow> string \<Rightarrow> string" where
  "padStart n c s = replicate (n - length s) c @ s"

text \<open>The identifier built from the list length: \<^verbatim>\<open>EXP-2026-${String(len + 1).padStart(3, '0')}\<close>.\<close>

definition newId :: "nat \<Rightarrow> string" where
  "newId len = ''EXP-2026-'' @ padStart 3 (CHR ''0'') (String_nat (len + 1))"

definition validationMessage :: "ExpenseData \<Rightarrow> string" where
  "validationMessage d =
     ''Validate expense: Vendor: '' @ ExpenseData.vendor d @ '', Amount: $'' @ ExpenseData.amount d
     @ '', Date: '' @ ExpenseData.date d @ '', Category: '' @ ExpenseData.category d
     @ '', Employee: Current User''"

text \<open>
  The object literal \<^verbatim>\<open>newExpense\<close>.  Its fields are evaluated in order; the reads of
  \<^verbatim>\<open>validationData.final_recommendation\<close> and of
  \<^verbatim>\<open>validationData.validation_summary.risk_level\<close> throw a TypeError on \<^verbatim>\<open>undefined\<close> or
  \<^verbatim>\<open>null\<close>.
\<close>

definition newExpense :: "Env \<Rightarrow> HomeState \<Rightarrow> jsval \<Rightarrow> js_error + ExpenseRecord" where
  "newExpense env s validationData =
     (case getProp validationData ''final_recommendation'' of
        Inl e \<Rightarrow> Inl e
      | Inr final_recommendation \<Rightarrow>
     (case getProp validationData ''validation_summary'' of
        Inl e \<Rightarrow> Inl e
      | Inr validation_summary \<Rightarrow>
     (case getProp validation_summary ''risk_level'' of
        Inl e \<Rightarrow> Inl e
      | Inr risk_level \<Rightarrow>
          Inr \<lparr> id' = newId (length (expenses s)),
                employee = ''Current User'',
                ExpenseRecord.vendor = ExpenseData.vendor (expenseData s),
                ExpenseRecord.amount = parseFloat env (ExpenseData.amount (expenseData s)),
                ExpenseRecord.date = ExpenseData.date (expenseData s),
                ExpenseRecord.category = ExpenseData.category (expenseData s),
                status = (if final_recommendation = JString ''AUTO_APPROVE'' then JString ''approved''
                          else if final_recommendation = JString ''MANAGER_REVIEW'' then JString ''reviewing''
                          else JString ''rejected''),
                riskScore = risk_level,
                ExpenseRecord.validationResult = Some validationData,
                receiptImage = None \<rparr>)))"

text \<open>The five cosmetic stages; the loop sets the stage counter to each index in turn.\<close>

definition stages :: "(string \<times> nat) list" where
  "stages =
     [(''Extracting receipt data...'', 800),
      (''Checking for fraud...'', 1000),
      (''Validating policy compliance...'', 900),
      (''Verifying employee eligibility...'', 700),
      (''Generating final report...'', 600)]"

definition runStages :: "HomeState \<Rightarrow> HomeState" where
  "runStages s = fold (\<lambda>i st. st\<lparr>validationStage := i\<rparr>) [0..<length stages] s"

text \<open>
  The body of the \<^verbatim>\<open>try\<close> block of \<^verbatim>\<open>handleSubmitExpense\<close>.  A throw is \<open>Inl\<close> with the
  state reached when it happened (the state setters already called have taken effect).
  The form and the list length are those of the render in which the handler was created.
\<close>

definition submitTry :: "Env \<Rightarrow> HomeState \<Rightarrow> (js_error \<times> HomeState) + HomeState" where
  "submitTry env s =
     (let s1 = runStages s in
      case callAIAgent env (validationMessage (expenseData s)) EXPENSE_VALIDATION_COORDINATOR of
        Inl e \<Rightarrow> Inl (e, s1)
      | Inr result \<Rightarrow>
          if success result \<and> truthy (response result) then
            (case parseValidationData (JSON_parse env) (response result) of
               Inl e \<Rightarrow> Inl (e, s1)
             | Inr validationData \<Rightarrow>
                 (let s2 = s1\<lparr>HomeState.validationResult := validationData\<rparr> in
                  case newExpense env s validationData of
                    Inl e \<Rightarrow> Inl (e, s2)
                  | Inr ne \<Rightarrow> Inr (s2\<lparr>expenses := ne # expenses s2\<rparr>)))
          else
            Inr (s1\<lparr>validationError :=
                       Some (case error result of
                               None \<Rightarrow> ''Validation failed''
                             | Some m \<Rightarrow> if truthy (JString m) then m else ''Validation failed'')\<rparr>))"

text \<open>\<^verbatim>\<open>handleSubmitExpense\<close>: the four resets, the \<^verbatim>\<open>try\<close>, the \<^verbatim>\<open>catch\<close>, the \<^verbatim>\<open>finally\<close>.\<close>

definition handleSubmitExpense :: "Env \<Rightarrow> HomeState \<Rightarrow> HomeState" where
  "handleSubmitExpense env s =
     (let s0 = s\<lparr>isValidating := True, validationError := None,
                  HomeState.validationResult := JNull, validationStage := 0\<rparr>;
          s3 = (case submitTry env s0 of
                  Inl (e, st) \<Rightarrow> st\<lparr>validationError := Some ''Network error occurred''\<rparr>
                | Inr st \<Rightarrow> st)
      in s3\<lparr>isValidating := False, validationStage := 5\<rparr>)"

section \<open>Manager decision\<close>

datatype decision = Approve | Reject

text \<open>\<^verbatim>\<open>decision.toUpperCase()\<close> on the two literals \<^verbatim>\<open>'approve'\<close> and \<^verbatim>\<open>'reject'\<close>.\<close>

fun toUpperCase :: "decision \<Rightarrow> string" where
  "toUpperCase Approve = ''APPROVE''"
| "toUpperCase Reject = ''REJECT''"

definition approvalMessage :: "Env \<Rightarrow> ExpenseRecord \<Rightarrow> decision \<Rightarrow> string \<Rightarrow> string" where
  "approvalMessage env sel d rationale =
     ''Process approval decision: Expense ID: '' @ id' sel @ '', Employee: '' @ employee sel
     @ '', Amount: $'' @ numberToString env (ExpenseRecord.amount sel)
     @ '', Manager Decision: '' @ toUpperCase d @ '', Rationale: '' @ rationale"

text \<open>
  The state updater
  \<^verbatim>\<open>prev => prev.map(exp => exp.id === selectedExpense.id ? { ...exp, status: approvalData.expense_status } : exp)\<close>.
  The read of \<^verbatim>\<open>approvalData.expense_status\<close> happens once for each matching record and
  throws a TypeError when \<^verbatim>\<open>approvalData\<close> is \<^verbatim>\<open>undefined\<close> or \<^verbatim>\<open>null\<close>.
\<close>

fun updateStatus :: "jsval \<Rightarrow> string \<Rightarrow> ExpenseRecord list \<Rightarrow> js_error + ExpenseRecord list" where
  "updateStatus approvalData sid [] = Inr []"
| "updateStatus approvalData sid (expense # rest) =
     (if id' expense = sid then
        (case getProp approvalData ''expense_status'' of
           Inl e \<Rightarrow> Inl e
         | Inr st \<Rightarrow>
             (case updateStatus approvalData sid rest of
                Inl e \<Rightarrow> Inl e
              | Inr rest' \<Rightarrow> Inr (expense\<lparr>status := st\<rparr> # rest')))
      else
        (case updateStatus approvalData sid rest of
           Inl e \<Rightarrow> Inl e
         | Inr rest' \<Rightarrow> Inr (expense # rest')))"

text \<open>
  \<^verbatim>\<open>handleApprovalDecision\<close>.  Without a selected record it returns at once.  A throw inside
  the \<^verbatim>\<open>try\<close> (the rejected call, \<^verbatim>\<open>JSON.parse\<close>, the property read on the parsed value,
  the invalid-structure error) is caught and only written to the console; \<^verbatim>\<open>finally\<close>
  resets the processing flag.  The updater passed to \<^verbatim>\<open>setExpenses\<close> is run by React
  outside the \<^verbatim>\<open>try\<close>, so a TypeError it throws is not caught by the handler: that outcome
  is \<open>Inl\<close>, the page failing to render.
\<close>

definition handleApprovalDecision :: "Env \<Rightarrow> HomeState \<Rightarrow> decision \<Rightarrow> js_error + HomeState" where
  "handleApprovalDecision env s d =
     (case selectedExpense s of
        None \<Rightarrow> Inr s
      | Some sel \<Rightarrow>
          (let s0 = s\<lparr>isProcessingApproval := True, approvalResult := JNull\<rparr> in
           case callAIAgent env (approvalMessage env sel d (managerRationale s)) MANAGER_APPROVAL of
             Inl e \<Rightarrow> Inr (s0\<lparr>isProcessingApproval := False\<rparr>)
           | Inr result \<Rightarrow>
               if success result \<and> truthy (response result) then
                 (case parseApprovalData (JSON_parse env) (response result) of
                    Inl e \<Rightarrow> Inr (s0\<lparr>isProcessingApproval := False\<rparr>)
                  | Inr approvalData \<Rightarrow>
                      (case updateStatus approvalData (id' sel) (expenses s0) of
                         Inl e \<Rightarrow> Inl e
                       | Inr exps \<Rightarrow>
                           Inr (s0\<lparr>approvalResult := approvalData, expenses := exps,
                                    managerRationale := '''', isProcessingApproval := False\<rparr>)))
               else Inr (s0\<lparr>isProcessingApproval := False\<rparr>)))"

text \<open>The two remote calls, as the handlers issue them.\<close>

abbreviation coordinatorCall :: "Env \<Rightarrow> HomeState \<Rightarrow> js_error + AgentResult" where
  "coordinatorCall env s \<equiv>
     callAIAgent env (validationMessage (expenseData s)) EXPENSE_VALIDATION_COORDINATOR"

abbreviation approvalCall :: "Env \<Rightarrow> HomeState \<Rightarrow> ExpenseRecord \<Rightarrow> decision \<Rightarrow> js_error + AgentResult" where
  "approvalCall env s sel d \<equiv>
     callAIAgent env (approvalMessage env sel d (managerRationale s)) MANAGER_APPROVAL"

section \<open>What a user can do\<close>

text \<open>
  One event of the page that touches the modelled state, each handler running to its end
  before the next event: editing the form, submitting when the button is enabled, choosing
  a status filter, selecting a row of the filtered table or a card of the review queue,
  editing the rationale and deciding when a record is selected (the review panel is only
  rendered then) and the buttons are enabled.
\<close>

inductive step :: "HomeState \<Rightarrow> HomeState \<Rightarrow> bool" where
  step_change: "step s (handleExpenseDataChange f v s)"
| step_submit: "\<not> submitDisabled s \<Longrightarrow> step s (handleSubmitExpense env s)"
| step_filter: "v \<in> set [''all'', ''pending'', ''reviewing'', ''approved'', ''rejected'']
                 \<Longrightarrow> step s (s\<lparr>statusFilter := v\<rparr>)"
| step_select_row: "e \<in> set (filteredExpenses (expenses s) (statusFilter s))
                 \<Longrightarrow> step s (s\<lparr>selectedExpense := Some e\<rparr>)"
| step_select_card: "e \<in> set (pendingExpenses (expenses s))
                 \<Longrightarrow> step s (s\<lparr>selectedExpense := Some e\<rparr>)"
| step_rationale: "selectedExpense s \<noteq> None \<Longrightarrow> step s (s\<lparr>managerRationale := r\<rparr>)"
| step_decide: "selectedExpense s \<noteq> None \<Longrightarrow> \<not> decisionDisabled s
                 \<Longrightarrow> handleApprovalDecision env s d = Inr s' \<Longrightarrow> step s s'"

definition reachable :: "HomeState \<Rightarrow> bool" where
  "reachable s = rtranclp step initialState s"

text \<open>
  The property kept by every event: the identifiers in the list are those built at the
  lengths \<open>n - 1, \<dots>, 0\<close>, newest first, and the selected record, if any, carries
  the identifier of a record of the list.
\<close>

definition idsInOrder :: "HomeState \<Rightarrow> bool" where
  "idsInOrder s \<longleftrightarrow>
     map id' (expenses s) = map newId (rev [0..<length (expenses s)])
     \<and> (\<forall>sel. selectedExpense s = Some sel \<longrightarrow> id' sel \<in> id' ` set (expenses s))"

section \<open>Reading an identifier back\<close>

text \<open>
  The value of a decimal digit and of a digit string; used to show that the identifier
  determines the list length it was built from.
\<close>

definition digitValue :: "char \<Rightarrow> nat" where
  "digitValue c = of_char c - 48"

definition digitsValue :: "string \<Rightarrow> nat" where
  "digitsValue ds = foldl (\<lambda>acc c. 10 * acc + digitValue c) 0 ds"

section \<open>Sample inputs\<close>

text \<open>
  The platform functions at the texts and numbers used in the examples below (on these
  they return what \<^verbatim>\<open>JSON.parse\<close>, \<^verbatim>\<open>parseFloat\<close> and number formatting return), and
  some outcomes of the remote call.
\<close>

definition demoParse :: "string \<Rightarrow> js_error + jsval" where
  \<open>demoParse txt =
     (if txt = ''{"result":{"expense_status":"approved"}}''
        then Inr (JObject [(''result'', JObject [(''expense_status'', JString ''approved'')])])
      else if txt = ''{"status":"ok"}'' then Inr (JObject [(''status'', JString ''ok'')])
      else Inl SyntaxError)\<close>

definition demoParseFloat :: "string \<Rightarrow> jsnum" where
  "demoParseFloat txt = (if txt = ''12.50'' then Finite (25 / 2) else NaN)"

definition demoNumberToString :: "jsnum \<Rightarrow> string" where
  "demoNumberToString n = (if n = Finite (25 / 2) then ''12.5'' else ''NaN'')"

definition demoEnv :: "(js_error + AgentResult) \<Rightarrow> Env" where
  "demoEnv outcome =
     \<lparr> JSON_parse = demoParse, parseFloat = demoParseFloat,
       numberToString = demoNumberToString, callAIAgent = (\<lambda>message agent. outcome) \<rparr>"

text \<open>A coordinator verdict with every field of \<^verbatim>\<open>interface ValidationResult\<close>.\<close>

definition autoApproveSummary :: jsval where
  "autoApproveSummary =
     JObject [(''overall_status'', JString ''approved''),
              (''confidence_score'', JNumber (Finite (19 / 20))),
              (''risk_level'', JString ''low'')]"

definition autoApprovePayload :: jsval where
  "autoApprovePayload =
     JObject [(''validation_summary'', autoApproveSummary),
              (''receipt_data'',
                 JObject [(''vendor'', JString ''Starbucks Coffee''),
                          (''amount'', JNumber (Finite (25 / 2))),
                          (''date'', JString ''2026-01-10''),
                          (''extracted_successfully'', JBool True)]),
              (''fraud_analysis'',
                 JObject [(''fraud_detected'', JBool False),
                          (''fraud_score'', JNumber (Finite (1 / 20))),
                          (''flags_count'', JNumber (Finite 0))]),
              (''policy_compliance'',
                 JObject [(''compliant'', JBool True),
                          (''violations_count'', JNumber (Finite 0)),
                          (''critical_violations'', JBool False)]),
              (''employee_eligibility'',
                 JObject [(''eligible'', JBool True), (''restrictions'', JNumber (Finite 0))]),
              (''final_recommendation'', JString ''AUTO_APPROVE''),
              (''recommendation_reasoning'', JString ''Within the meal limit, no flags.''),
              (''required_actions'', JArray []),
              (''approval_workflow'',
                 JObject [(''requires_manager_approval'', JBool False),
                          (''required_approval_level'', JString ''none''),
                          (''auto_approvable'', JBool True)])]"

definition coordinatorApproves :: "js_error + AgentResult" where
  "coordinatorApproves =
     Inr \<lparr> success = True, response = JObject [(''result'', autoApprovePayload)], error = None \<rparr>"

definition agentFails :: "js_error + AgentResult" where
  "agentFails = Inr \<lparr> success = False, response = JUndefined, error = Some ''Agent unavailable'' \<rparr>"

definition agentUnrecognized :: "js_error + AgentResult" where
  "agentUnrecognized =
     Inr \<lparr> success = True, response = JObject [(''message'', JString ''done'')], error = None \<rparr>"

definition agentThrows :: "js_error + AgentResult" where
  "agentThrows = Inl NetworkFailure"

text \<open>A manager-approval verdict with every mandatory field of \<^verbatim>\<open>interface ApprovalResult\<close>.\<close>

definition rejectionPayload :: jsval where
  "rejectionPayload =
     JObject [(''decision_processed'', JBool True),
              (''expense_status'', JString ''rejected''),
              (''decision_details'',
                 JObject [(''manager_id'', JString ''MGR-001''),
                          (''decision'', JString ''REJECT''),
                          (''rationale'', JString ''duplicate claim''),
                          (''decision_timestamp'', JString ''2026-01-11T09:00:00Z'')]),
              (''workflow_actions'',
                 JObject [(''reimbursement_triggered'', JBool False),
                          (''employee_notified'', JBool True),
                          (''audit_record_created'', JBool True),
                          (''finance_team_notified'', JBool False)]),
              (''next_steps'', JArray []),
              (''audit_trail'',
                 JObject [(''record_id'', JString ''AUD-001''),
                          (''timestamp'', JString ''2026-01-11T09:00:00Z''),
                          (''action'', JString ''rejected'')])]"

definition managerRejects :: "js_error + AgentResult" where
  "managerRejects =
     Inr \<lparr> success = True, response = JObject [(''result'', rejectionPayload)], error = None \<rparr>"

definition managerOmitsResult :: "js_error + AgentResult" where
  \<open>managerOmitsResult =
     Inr \<lparr> success = True,
           response = JObject [(''response'', JString ''{"status":"ok"}'')],
           error = None \<rparr>\<close>

definition managerOmitsResultDirectly :: "js_error + AgentResult" where
  "managerOmitsResultDirectly =
     Inr \<lparr> success = True, response = JObject [(''status'', JString ''ok'')], error = None \<rparr>"

text \<open>
  A session: the form is filled in as in the Starbucks scenario, the coordinator
  recommends automatic approval, the new row is selected in the table, a rationale is
  typed, and the manager rejects it.
\<close>

definition filledForm :: HomeState where
  "filledForm =
     handleExpenseDataChange Date ''2026-01-10''
       (handleExpenseDataChange Amount ''12.50''
         (handleExpenseDataChange Vendor ''Starbucks Coffee'' initialState))"

definition afterSubmit :: HomeState where
  "afterSubmit = handleSubmitExpense (demoEnv coordinatorApproves) filledForm"

definition storedRecord :: ExpenseRecord where
  "storedRecord =
     \<lparr> id' = ''EXP-2026-001'', employee = ''Current User'',
       ExpenseRecord.vendor = ''Starbucks Coffee'', ExpenseRecord.amount = Finite (25 / 2),
       ExpenseRecord.date = ''2026-01-10'', ExpenseRecord.category = ''Business Meal'',
       status = JString ''approved'', riskScore = JString ''low'',
       ExpenseRecord.validationResult = Some autoApprovePayload, receiptImage = None \<rparr>"

definition underReview :: HomeState where
  "underReview = afterSubmit\<lparr>selectedExpense := Some storedRecord, managerRationale := ''duplicate claim''\<rparr>"

definition afterReject :: HomeState where
  "afterReject =
     underReview\<lparr>approvalResult := rejectionPayload,
                 expenses := [storedRecord\<lparr>status := JString ''rejected''\<rparr>],
                 managerRationale := '''', isProcessingApproval := False\<rparr>"

section \<open>The two envelope shapes\<close>

lemma parse_string_shape:
  assumes "map_of es ''response'' = Some (JString txt)"
    and "parse txt = Inr (JObject fs)"
    and "map_of fs ''result'' = Some R"
  shows "parseValidationData parse (JObject es) = Inr R"
    and "parseApprovalData parse (JObject es) = Inr R"
  using assms by (simp_all add: parseValidationData_def parseApprovalData_def)

lemma parse_direct_shape:
  assumes "map_of ds ''result'' = Some R"
    and "\<forall>t. map_of ds ''response'' \<noteq> Some (JString t)"
    and "truthy R"
  shows "parseValidationData parse (JObject ds) = Inr R"
    and "parseApprovalData parse (JObject ds) = Inr R"
  using assms
  by (cases "map_of ds ''response''";
      auto simp: parseValidationData_def parseApprovalData_def split: jsval.splits)+

text \<open>
  The second branch takes the \<^verbatim>\<open>result\<close> field only when it is truthy; a value that is
  not (\<^verbatim>\<open>null\<close>, \<^verbatim>\<open>false\<close>, \<^verbatim>\<open>0\<close>, the empty string, or no field at all) is refused
  there.
\<close>

lemma parse_direct_shape_refused:
  assumes "getProp (JObject ds) ''result'' = Inr R"
    and "\<forall>t. map_of ds ''response'' \<noteq> Some (JString t)"
    and "\<not> truthy R"
  shows "parseValidationData parse (JObject ds) = Inl (Error ''Invalid response structure'')"
    and "parseApprovalData parse (JObject ds) = Inl (Error ''Invalid response structure'')"
  using assms
  by (cases "map_of ds ''response''";
      auto simp: parseValidationData_def parseApprovalData_def split: jsval.splits)+

text \<open>
  C2: when the envelope's \<^verbatim>\<open>response\<close> field is a string that parses to an object with a
  \<^verbatim>\<open>result\<close> field \<open>R\<close>, a structured result (an object or an array), the two-pass parse
  yields \<open>R\<close>, the same value that is obtained from an envelope holding \<open>R\<close> directly in
  its \<^verbatim>\<open>result\<close> field (its \<^verbatim>\<open>response\<close> field not being a string); this holds in the
  submission parse and in the manager-decision parse.
\<close>

theorem shape_equivalence:
  assumes "map_of es ''response'' = Some (JString txt)"
    and "parse txt = Inr (JObject fs)"
    and "map_of fs ''result'' = Some R"
    and "map_of ds ''result'' = Some R"
    and "\<forall>t. map_of ds ''response'' \<noteq> Some (JString t)"
    and "(\<exists>fields. R = JObject fields) \<or> (\<exists>items. R = JArray items)"
  shows "parseValidationData parse (JObject es) = Inr R
       \<and> parseValidationData parse (JObject ds) = Inr R
       \<and> parseApprovalData parse (JObject es) = Inr R
       \<and> parseApprovalData parse (JObject ds) = Inr R"
proof -
  from assms(6) have "truthy R" by auto
  then show ?thesis
    using assms parse_string_shape [where es = es and parse = parse and fs = fs and R = R]
          parse_direct_shape [where ds = ds and R = R and parse = parse]
    by simp
qed

theorem shape_equivalence_witness:
  \<open>parseValidationData demoParse
      (JObject [(''response'', JString ''{"result":{"expense_status":"approved"}}'')])
     = Inr (JObject [(''expense_status'', JString ''approved'')])
   \<and> parseValidationData demoParse
      (JObject [(''result'', JObject [(''expense_status'', JString ''approved'')])])
     = Inr (JObject [(''expense_status'', JString ''approved'')])
   \<and> parseApprovalData demoParse
      (JObject [(''response'', JString ''{"result":{"expense_status":"approved"}}'')])
     = Inr (JObject [(''expense_status'', JString ''approved'')])
   \<and> parseApprovalData demoParse
      (JObject [(''result'', JObject [(''expense_status'', JString ''approved'')])])
     = Inr (JObject [(''expense_status'', JString ''approved'')])\<close>
proof -
  have h1: \<open>map_of [(''response'', JString ''{"result":{"expense_status":"approved"}}'')] ''response''
              = Some (JString ''{"result":{"expense_status":"approved"}}'')\<close>
    by simp
  have h2: \<open>demoParse ''{"result":{"expense_status":"approved"}}''
              = Inr (JObject [(''result'', JObject [(''expense_status'', JString ''approved'')])])\<close>
    by (simp add: demoParse_def)
  have h3: "map_of [(''result'', JObject [(''expense_status'', JString ''approved'')])] ''result''
              = Some (JObject [(''expense_status'', JString ''approved'')])"
    by simp
  have h5: "\<forall>t. map_of [(''result'', JObject [(''expense_status'', JString ''approved'')])] ''response''
              \<noteq> Some (JString t)"
    by simp
  have h6: "(\<exists>fields. JObject [(''expense_status'', JString ''approved'')] = JObject fields)
            \<or> (\<exists>items. JObject [(''expense_status'', JString ''approved'')] = JArray items)"
    by simp
  show ?thesis
    using h1 h2 h3 h5 h6
      shape_equivalence [where parse = demoParse
        and es = \<open>[(''response'', JString ''{"result":{"expense_status":"approved"}}'')]\<close>
        and fs = "[(''result'', JObject [(''expense_status'', JString ''approved'')])]"
        and ds = "[(''result'', JObject [(''expense_status'', JString ''approved'')])]"
        and R = "JObject [(''expense_status'', JString ''approved'')]"]
    by simp
qed

section \<open>The submit guard\<close>

text \<open>
  C6: the submit action is disabled exactly when a validation is in flight or one of
  vendor, amount and date is the empty string (so it is enabled exactly when all three
  are non-empty and nothing is in flight), and the category never enters the guard.
\<close>

theorem submit_guard:
  "(submitDisabled s \<longleftrightarrow>
      (isValidating s \<or> ExpenseData.vendor (expenseData s) = ''''
       \<or> ExpenseData.amount (expenseData s) = '''' \<or> ExpenseData.date (expenseData s) = ''''))
   \<and> submitDisabled (handleExpenseDataChange Category c s) = submitDisabled s"
  by (simp add: submitDisabled_def)

theorem submit_guard_witness:
  "submitDisabled initialState
   \<and> \<not> submitDisabled filledForm
   \<and> \<not> submitDisabled (handleExpenseDataChange Category '''' filledForm)
   \<and> submitDisabled (filledForm\<lparr>isValidating := True\<rparr>)"
  using submit_guard [of initialState "''''"] submit_guard [of filledForm "''''"]
        submit_guard [of "filledForm\<lparr>isValidating := True\<rparr>" "''''"]
  by (simp add: initialState_def filledForm_def)

section \<open>The status filter\<close>

text \<open>
  C7: filtering by \<^verbatim>\<open>all\<close> returns the list unchanged, and filtering by any other value
  returns exactly the records whose status is that string, in the order of the list.
\<close>

theorem filter_by_status:
  "filteredExpenses exps ''all'' = exps
   \<and> (flt \<noteq> ''all'' \<longrightarrow> filteredExpenses exps flt = filter (\<lambda>e. status e = JString flt) exps)"
  by (simp add: filteredExpenses_def)

theorem filter_by_status_witness:
  "filteredExpenses [storedRecord\<lparr>status := JString ''rejected''\<rparr>, storedRecord,
                     storedRecord\<lparr>status := JString ''reviewing'', id' := ''EXP-2026-002''\<rparr>] ''approved''
     = [storedRecord]
   \<and> filteredExpenses [storedRecord\<lparr>status := JString ''rejected''\<rparr>, storedRecord] ''all''
     = [storedRecord\<lparr>status := JString ''rejected''\<rparr>, storedRecord]"
  using filter_by_status [of "[storedRecord\<lparr>status := JString ''rejected''\<rparr>, storedRecord,
                     storedRecord\<lparr>status := JString ''reviewing'', id' := ''EXP-2026-002''\<rparr>]" "''approved''"]
        filter_by_status [of "[storedRecord\<lparr>status := JString ''rejected''\<rparr>, storedRecord]" "''approved''"]
  by (simp add: storedRecord_def)

section \<open>Submission\<close>

lemma runStages_eq: "runStages s = s\<lparr>validationStage := 4\<rparr>"
proof -
  have "[0..<length stages] = [0, 1, 2, 3, 4]"
    by (simp add: stages_def upt_rec)
  then show ?thesis by (simp add: runStages_def)
qed

lemma newExpense_frame:
  assumes "expenses t = expenses s" and "expenseData t = expenseData s"
  shows "newExpense env t v = newExpense env s v"
  using assms by (simp add: newExpense_def cong: sum.case_cong)

lemma newExpense_fields:
  assumes "newExpense env s v = Inr ne"
  shows "id' ne = newId (length (expenses s))"
    and "employee ne = ''Current User''"
    and "ExpenseRecord.vendor ne = ExpenseData.vendor (expenseData s)"
    and "ExpenseRecord.amount ne = parseFloat env (ExpenseData.amount (expenseData s))"
    and "ExpenseRecord.date ne = ExpenseData.date (expenseData s)"
    and "ExpenseRecord.category ne = ExpenseData.category (expenseData s)"
    and "ExpenseRecord.validationResult ne = Some v"
    and "receiptImage ne = None"
  using assms by (auto simp: newExpense_def split: sum.splits)

lemma newExpense_status:
  assumes "getProp v ''final_recommendation'' = Inr recommendation"
    and "getProp v ''validation_summary'' = Inr summary"
    and "getProp summary ''risk_level'' = Inr risk"
  shows "\<exists>ne. newExpense env s v = Inr ne
          \<and> status ne = (if recommendation = JString ''AUTO_APPROVE'' then JString ''approved''
                          else if recommendation = JString ''MANAGER_REVIEW'' then JString ''reviewing''
                          else JString ''rejected'')
          \<and> riskScore ne = risk"
  using assms by (simp add: newExpense_def)

text \<open>The state in which the \<^verbatim>\<open>try\<close> block starts.\<close>

lemma submit_unfold:
  "handleSubmitExpense env s =
     (case submitTry env (s\<lparr>isValidating := True, validationError := None,
                             HomeState.validationResult := JNull, validationStage := 0\<rparr>) of
        Inl (e, st) \<Rightarrow> st\<lparr>validationError := Some ''Network error occurred'',
                          isValidating := False, validationStage := 5\<rparr>
      | Inr st \<Rightarrow> st\<lparr>isValidating := False, validationStage := 5\<rparr>)"
  by (simp add: handleSubmitExpense_def split: sum.splits prod.splits)

lemma submit_success:
  assumes "callAIAgent env (validationMessage (expenseData s)) EXPENSE_VALIDATION_COORDINATOR = Inr result"
    and "success result" and "truthy (response result)"
    and "parseValidationData (JSON_parse env) (response result) = Inr validationData"
    and "newExpense env s validationData = Inr ne"
  shows "expenses (handleSubmitExpense env s) = ne # expenses s"
    and "validationError (handleSubmitExpense env s) = None"
    and "HomeState.validationResult (handleSubmitExpense env s) = validationData"
proof -
  let ?s0 = "s\<lparr>isValidating := True, validationError := None,
                 HomeState.validationResult := JNull, validationStage := 0\<rparr>"
  have ne: "newExpense env ?s0 validationData = Inr ne"
    using assms(5) newExpense_frame [of ?s0 s env validationData] by simp
  have "submitTry env ?s0 =
          Inr ((runStages ?s0)\<lparr>HomeState.validationResult := validationData,
                                 expenses := ne # expenses (runStages ?s0)\<rparr>)"
    using assms(1-4) ne by (simp add: submitTry_def Let_def)
  then show "expenses (handleSubmitExpense env s) = ne # expenses s"
    and "validationError (handleSubmitExpense env s) = None"
    and "HomeState.validationResult (handleSubmitExpense env s) = validationData"
    by (simp_all add: submit_unfold runStages_eq)
qed

lemma submit_reported_failure:
  assumes "callAIAgent env (validationMessage (expenseData s)) EXPENSE_VALIDATION_COORDINATOR = Inr result"
    and "\<not> (success result \<and> truthy (response result))"
  shows "expenses (handleSubmitExpense env s) = expenses s"
    and "validationError (handleSubmitExpense env s) =
           Some (case error result of
                   None \<Rightarrow> ''Validation failed''
                 | Some m \<Rightarrow> if m = '''' then ''Validation failed'' else m)"
proof -
  let ?s0 = "s\<lparr>isValidating := True, validationError := None,
                 HomeState.validationResult := JNull, validationStage := 0\<rparr>"
  have "submitTry env ?s0 =
          Inr ((runStages ?s0)\<lparr>validationError :=
                 Some (case error result of
                         None \<Rightarrow> ''Validation failed''
                       | Some m \<Rightarrow> if truthy (JString m) then m else ''Validation failed'')\<rparr>)"
    using assms by (auto simp: submitTry_def Let_def)
  then show "expenses (handleSubmitExpense env s) = expenses s"
    and "validationError (handleSubmitExpense env s) =
           Some (case error result of
                   None \<Rightarrow> ''Validation failed''
                 | Some m \<Rightarrow> if m = '''' then ''Validation failed'' else m)"
    by (auto simp: submit_unfold runStages_eq split: option.splits)
qed

lemma submit_thrown:
  assumes "callAIAgent env (validationMessage (expenseData s)) EXPENSE_VALIDATION_COORDINATOR = Inl e
           \<or> (\<exists>result. callAIAgent env (validationMessage (expenseData s)) EXPENSE_VALIDATION_COORDINATOR
                          = Inr result
                 \<and> success result \<and> truthy (response result)
                 \<and> (parseValidationData (JSON_parse env) (response result) = Inl e
                    \<or> (\<exists>validationData.
                          parseValidationData (JSON_parse env) (response result) = Inr validationData
                          \<and> newExpense env s validationData = Inl e)))"
  shows "expenses (handleSubmitExpense env s) = expenses s"
    and "validationError (handleSubmitExpense env s) = Some ''Network error occurred''"
proof -
  let ?s0 = "s\<lparr>isValidating := True, validationError := None,
                 HomeState.validationResult := JNull, validationStage := 0\<rparr>"
  have fr: "newExpense env ?s0 v = newExpense env s v" for v
    using newExpense_frame [of ?s0 s env v] by simp
  have "\<exists>st. submitTry env ?s0 = Inl (e, st) \<and> expenses st = expenses s"
    using assms by (auto simp: submitTry_def Let_def runStages_eq fr)
  then show "expenses (handleSubmitExpense env s) = expenses s"
    and "validationError (handleSubmitExpense env s) = Some ''Network error occurred''"
    by (auto simp: submit_unfold)
qed

text \<open>Every run of the handler is one of the three: stored, reported failure, thrown.\<close>

lemma submit_cases:
  "(\<exists>result validationData ne.
       callAIAgent env (validationMessage (expenseData s)) EXPENSE_VALIDATION_COORDINATOR = Inr result
     \<and> success result \<and> truthy (response result)
     \<and> parseValidationData (JSON_parse env) (response result) = Inr validationData
     \<and> newExpense env s validationData = Inr ne
     \<and> expenses (handleSubmitExpense env s) = ne # expenses s
     \<and> validationError (handleSubmitExpense env s) = None)
   \<or> (expenses (handleSubmitExpense env s) = expenses s
      \<and> validationError (handleSubmitExpense env s) \<noteq> None)"
proof (cases "callAIAgent env (validationMessage (expenseData s)) EXPENSE_VALIDATION_COORDINATOR")
  case (Inl e)
  then show ?thesis using submit_thrown [of env s e] by simp
next
  case (Inr result)
  show ?thesis
  proof (cases "success result \<and> truthy (response result)")
    case False
    then show ?thesis using submit_reported_failure [OF Inr] by simp
  next
    case True
    show ?thesis
    proof (cases "parseValidationData (JSON_parse env) (response result)")
      case (Inl e)
      then show ?thesis using submit_thrown [of env s e] Inr True by simp
    next
      case pv: (Inr validationData)
      show ?thesis
      proof (cases "newExpense env s validationData")
        case (Inl e)
        then show ?thesis using submit_thrown [of env s e] Inr True pv by simp
      next
        case ne: (Inr ne)
        have "expenses (handleSubmitExpense env s) = ne # expenses s"
          and "validationError (handleSubmitExpense env s) = None"
          using submit_success [OF Inr _ _ pv ne] True by simp_all
        then show ?thesis using Inr True pv ne by blast
      qed
    qed
  qed
qed

lemma submit_frame:
  "selectedExpense (handleSubmitExpense env s) = selectedExpense s"
  "managerRationale (handleSubmitExpense env s) = managerRationale s"
  "statusFilter (handleSubmitExpense env s) = statusFilter s"
  by (auto simp: submit_unfold submitTry_def Let_def runStages_eq split: sum.splits prod.splits)

lemma newExpense_inv:
  assumes "newExpense env s v = Inr ne"
  shows "\<exists>recommendation summary risk.
           getProp v ''final_recommendation'' = Inr recommendation
         \<and> getProp v ''validation_summary'' = Inr summary
         \<and> getProp summary ''risk_level'' = Inr risk
         \<and> status ne = (if recommendation = JString ''AUTO_APPROVE'' then JString ''approved''
                         else if recommendation = JString ''MANAGER_REVIEW'' then JString ''reviewing''
                         else JString ''rejected'')
         \<and> riskScore ne = risk"
proof -
  obtain r where r: "getProp v ''final_recommendation'' = Inr r"
    using assms by (cases "getProp v ''final_recommendation''") (simp_all add: newExpense_def)
  obtain sm where sm: "getProp v ''validation_summary'' = Inr sm"
    using assms r by (cases "getProp v ''validation_summary''") (simp_all add: newExpense_def)
  obtain rk where rk: "getProp sm ''risk_level'' = Inr rk"
    using assms r sm by (cases "getProp sm ''risk_level''") (simp_all add: newExpense_def)
  from newExpense_status [OF r sm rk, of env s] assms
  have "status ne = (if r = JString ''AUTO_APPROVE'' then JString ''approved''
                     else if r = JString ''MANAGER_REVIEW'' then JString ''reviewing''
                     else JString ''rejected'')" and "riskScore ne = rk"
    by (elim exE conjE, simp)+
  with r sm rk show ?thesis
    by (intro exI [of _ r] exI [of _ sm] exI [of _ rk] conjI)
qed

text \<open>
  C1: when the coordinator call succeeds, its payload is located and carries
  \<^verbatim>\<open>final_recommendation\<close> and \<^verbatim>\<open>validation_summary.risk_level\<close>, the record stored at the
  head of the list has status \<^verbatim>\<open>approved\<close> for \<^verbatim>\<open>AUTO_APPROVE\<close>, \<^verbatim>\<open>reviewing\<close> for
  \<^verbatim>\<open>MANAGER_REVIEW\<close> and \<^verbatim>\<open>rejected\<close> for anything else, and its risk score is the
  payload's risk level; and every record the handler stores arises in this way.
\<close>

theorem stored_status_and_risk:
  "(coordinatorCall env s = Inr result \<and> success result \<and> truthy (response result)
      \<and> parseValidationData (JSON_parse env) (response result) = Inr validationData
      \<and> getProp validationData ''final_recommendation'' = Inr recommendation
      \<and> getProp validationData ''validation_summary'' = Inr summary
      \<and> getProp summary ''risk_level'' = Inr risk
    \<longrightarrow> (\<exists>ne. expenses (handleSubmitExpense env s) = ne # expenses s
             \<and> status ne = (if recommendation = JString ''AUTO_APPROVE'' then JString ''approved''
                             else if recommendation = JString ''MANAGER_REVIEW'' then JString ''reviewing''
                             else JString ''rejected'')
             \<and> riskScore ne = risk))
   \<and> (expenses (handleSubmitExpense env s) \<noteq> expenses s
    \<longrightarrow> (\<exists>res v rcm smm rsk ne.
             coordinatorCall env s = Inr res \<and> success res \<and> truthy (response res)
           \<and> parseValidationData (JSON_parse env) (response res) = Inr v
           \<and> getProp v ''final_recommendation'' = Inr rcm
           \<and> getProp v ''validation_summary'' = Inr smm
           \<and> getProp smm ''risk_level'' = Inr rsk
           \<and> expenses (handleSubmitExpense env s) = ne # expenses s
           \<and> status ne = (if rcm = JString ''AUTO_APPROVE'' then JString ''approved''
                           else if rcm = JString ''MANAGER_REVIEW'' then JString ''reviewing''
                           else JString ''rejected'')
           \<and> riskScore ne = rsk))"
proof (intro conjI impI)
  assume h: "coordinatorCall env s = Inr result \<and> success result \<and> truthy (response result)
      \<and> parseValidationData (JSON_parse env) (response result) = Inr validationData
      \<and> getProp validationData ''final_recommendation'' = Inr recommendation
      \<and> getProp validationData ''validation_summary'' = Inr summary
      \<and> getProp summary ''risk_level'' = Inr risk"
  then have p: "getProp validationData ''final_recommendation'' = Inr recommendation"
      "getProp validationData ''validation_summary'' = Inr summary"
      "getProp summary ''risk_level'' = Inr risk"
    by simp_all
  from newExpense_status [OF p, of env s] obtain ne
    where ne: "newExpense env s validationData = Inr ne"
      and st: "status ne = (if recommendation = JString ''AUTO_APPROVE'' then JString ''approved''
                            else if recommendation = JString ''MANAGER_REVIEW'' then JString ''reviewing''
                            else JString ''rejected'')"
      and rk: "riskScore ne = risk"
    by (elim exE conjE)
  have "expenses (handleSubmitExpense env s) = ne # expenses s"
    using h ne submit_success(1) [of env s result validationData ne] by simp
  then show "\<exists>ne. expenses (handleSubmitExpense env s) = ne # expenses s
             \<and> status ne = (if recommendation = JString ''AUTO_APPROVE'' then JString ''approved''
                             else if recommendation = JString ''MANAGER_REVIEW'' then JString ''reviewing''
                             else JString ''rejected'')
             \<and> riskScore ne = risk"
    using st rk by (intro exI [of _ ne] conjI)
next
  assume ch: "expenses (handleSubmitExpense env s) \<noteq> expenses s"
  from submit_cases [of env s]
  show "\<exists>res v rcm smm rsk ne.
             coordinatorCall env s = Inr res \<and> success res \<and> truthy (response res)
           \<and> parseValidationData (JSON_parse env) (response res) = Inr v
           \<and> getProp v ''final_recommendation'' = Inr rcm
           \<and> getProp v ''validation_summary'' = Inr smm
           \<and> getProp smm ''risk_level'' = Inr rsk
           \<and> expenses (handleSubmitExpense env s) = ne # expenses s
           \<and> status ne = (if rcm = JString ''AUTO_APPROVE'' then JString ''approved''
                           else if rcm = JString ''MANAGER_REVIEW'' then JString ''reviewing''
                           else JString ''rejected'')
           \<and> riskScore ne = rsk"
  proof (elim disjE exE conjE)
    fix res v ne
    assume a: "coordinatorCall env s = Inr res" "success res" "truthy (response res)"
      "parseValidationData (JSON_parse env) (response res) = Inr v"
      "newExpense env s v = Inr ne" "expenses (handleSubmitExpense env s) = ne # expenses s"
    from newExpense_inv [OF a(5)] obtain rcm smm rsk where b:
      "getProp v ''final_recommendation'' = Inr rcm"
      "getProp v ''validation_summary'' = Inr smm"
      "getProp smm ''risk_level'' = Inr rsk"
      "status ne = (if rcm = JString ''AUTO_APPROVE'' then JString ''approved''
                    else if rcm = JString ''MANAGER_REVIEW'' then JString ''reviewing''
                    else JString ''rejected'')"
      "riskScore ne = rsk"
      by (elim exE conjE)
    show ?thesis
      by (intro exI [of _ res] exI [of _ v] exI [of _ rcm] exI [of _ smm] exI [of _ rsk]
                exI [of _ ne] conjI) (rule a b)+
  next
    assume "expenses (handleSubmitExpense env s) = expenses s"
    with ch show ?thesis by simp
  qed
qed

text \<open>The Starbucks scenario of the specification, evaluated.\<close>

lemma demo_call:
  "callAIAgent (demoEnv outcome) message agent = outcome"
  "JSON_parse (demoEnv outcome) = demoParse"
  "parseFloat (demoEnv outcome) = demoParseFloat"
  by (simp_all add: demoEnv_def)

lemma demo_payload:
  "parseValidationData demoParse (JObject [(''result'', autoApprovePayload)]) = Inr autoApprovePayload"
  "getProp autoApprovePayload ''final_recommendation'' = Inr (JString ''AUTO_APPROVE'')"
  "getProp autoApprovePayload ''validation_summary''
     = Inr (autoApproveSummary)"
  "getProp (autoApproveSummary) ''risk_level''
     = Inr (JString ''low'')"
  by (simp_all add: parseValidationData_def autoApprovePayload_def autoApproveSummary_def)

lemma filledForm_fields:
  "expenses filledForm = []"
  "expenseData filledForm =
     \<lparr> ExpenseData.vendor = ''Starbucks Coffee'', ExpenseData.amount = ''12.50'',
       ExpenseData.date = ''2026-01-10'', ExpenseData.category = ''Business Meal'' \<rparr>"
  "selectedExpense filledForm = None"
  "statusFilter filledForm = ''all''"
  by (simp_all add: filledForm_def initialState_def initialExpenses_def)

theorem stored_status_and_risk_witness:
  "status (hd (expenses afterSubmit)) = JString ''approved''
   \<and> riskScore (hd (expenses afterSubmit)) = JString ''low''
   \<and> tl (expenses afterSubmit) = expenses filledForm
   \<and> expenses afterSubmit \<noteq> expenses filledForm"
proof -
  have "\<exists>ne. expenses (handleSubmitExpense (demoEnv coordinatorApproves) filledForm)
                = ne # expenses filledForm
             \<and> status ne = JString ''approved'' \<and> riskScore ne = JString ''low''"
    using stored_status_and_risk [of "demoEnv coordinatorApproves" filledForm
        "\<lparr> success = True, response = JObject [(''result'', autoApprovePayload)], error = None \<rparr>"
        autoApprovePayload "JString ''AUTO_APPROVE''"
        "autoApproveSummary"
        "JString ''low''"]
    by (simp add: demo_call demo_payload coordinatorApproves_def)
  then show ?thesis by (auto simp: afterSubmit_def)
qed

text \<open>
  C8: on a successful submission the new record is put in front of the list: it is at
  index 0, the list is one longer, and every record that was at index \<open>i\<close> is, unchanged,
  at index \<open>i + 1\<close>.
\<close>

theorem new_record_prepended:
  assumes "coordinatorCall env s = Inr result"
    and "success result" and "truthy (response result)"
    and "parseValidationData (JSON_parse env) (response result) = Inr validationData"
    and "newExpense env s validationData = Inr ne"
  shows "expenses (handleSubmitExpense env s) = ne # expenses s
       \<and> expenses (handleSubmitExpense env s) ! 0 = ne
       \<and> length (expenses (handleSubmitExpense env s)) = Suc (length (expenses s))
       \<and> (\<forall>i<length (expenses s). expenses (handleSubmitExpense env s) ! Suc i = expenses s ! i)"
  using submit_success(1) [OF assms] by simp

lemma newId_values:
  "newId 0 = ''EXP-2026-001''"
  "newId (Suc 0) = ''EXP-2026-002''"
  by (simp_all add: newId_def padStart_def digit_def numeral_2_eq_2 String_nat.simps)

lemma demo_newExpense:
  "newExpense (demoEnv outcome) filledForm autoApprovePayload = Inr storedRecord"
  by (simp add: newExpense_def demo_call demo_payload filledForm_fields storedRecord_def
        demoParseFloat_def newId_values)

lemma afterSubmit_expenses: "expenses afterSubmit = [storedRecord]"
  using submit_success(1) [of "demoEnv coordinatorApproves" filledForm
      "\<lparr> success = True, response = JObject [(''result'', autoApprovePayload)], error = None \<rparr>"
      autoApprovePayload storedRecord]
  by (simp add: demo_call demo_payload demo_newExpense coordinatorApproves_def afterSubmit_def
        filledForm_fields)

theorem new_record_prepended_witness:
  "expenses (handleSubmitExpense (demoEnv coordinatorApproves) afterSubmit)
     = storedRecord\<lparr>id' := ''EXP-2026-002''\<rparr> # expenses afterSubmit
   \<and> expenses (handleSubmitExpense (demoEnv coordinatorApproves) afterSubmit) ! 0
     = storedRecord\<lparr>id' := ''EXP-2026-002''\<rparr>
   \<and> expenses (handleSubmitExpense (demoEnv coordinatorApproves) afterSubmit) ! 1 = storedRecord
   \<and> length (expenses (handleSubmitExpense (demoEnv coordinatorApproves) afterSubmit)) = 2"
proof -
  have form: "expenseData afterSubmit = expenseData filledForm"
    by (simp add: afterSubmit_def submit_unfold submitTry_def Let_def runStages_eq
          split: sum.splits prod.splits)
  have ne: "newExpense (demoEnv coordinatorApproves) afterSubmit autoApprovePayload
              = Inr (storedRecord\<lparr>id' := ''EXP-2026-002''\<rparr>)"
    by (simp add: newExpense_def demo_call demo_payload form filledForm_fields storedRecord_def
          afterSubmit_expenses demoParseFloat_def newId_values)
  show ?thesis
    using new_record_prepended [of "demoEnv coordinatorApproves" afterSubmit
        "\<lparr> success = True, response = JObject [(''result'', autoApprovePayload)], error = None \<rparr>"
        autoApprovePayload "storedRecord\<lparr>id' := ''EXP-2026-002''\<rparr>"] ne
    by (simp add: demo_call demo_payload coordinatorApproves_def afterSubmit_expenses)
qed

text \<open>
  C5: (a) when the call reports failure (or returns no envelope), the validation error
  is the call's error string, or \<^verbatim>\<open>Validation failed\<close> when that is absent or empty;
  (b) when the call succeeds and the envelope has neither shape (no string \<^verbatim>\<open>response\<close>,
  no truthy \<^verbatim>\<open>result\<close>), the invalid-structure error is raised, caught, and the validation
  error is set, to the text of the \<^verbatim>\<open>catch\<close> block; (c) when anything is thrown (by the
  call, by the parse, by the property reads), the validation error is the network-error
  text; and in each of these cases, indeed whenever a validation error is set, the
  expense list is unchanged.
\<close>

theorem submission_failures:
  "(coordinatorCall env s = Inr result \<and> \<not> (success result \<and> truthy (response result))
      \<longrightarrow> validationError (handleSubmitExpense env s)
            = Some (case error result of
                      None \<Rightarrow> ''Validation failed''
                    | Some m \<Rightarrow> if m = '''' then ''Validation failed'' else m)
          \<and> expenses (handleSubmitExpense env s) = expenses s)
   \<and> (coordinatorCall env s = Inr result \<and> success result \<and> truthy (response result)
        \<and> (\<forall>t. getProp (response result) ''response'' \<noteq> Inr (JString t))
        \<and> (\<forall>v. getProp (response result) ''result'' = Inr v \<longrightarrow> \<not> truthy v)
      \<longrightarrow> parseValidationData (JSON_parse env) (response result)
            = Inl (Error ''Invalid response structure'')
          \<and> validationError (handleSubmitExpense env s) = Some ''Network error occurred''
          \<and> expenses (handleSubmitExpense env s) = expenses s)
   \<and> (coordinatorCall env s = Inl e
        \<or> (coordinatorCall env s = Inr result \<and> success result \<and> truthy (response result)
           \<and> (parseValidationData (JSON_parse env) (response result) = Inl e
              \<or> (\<exists>validationData.
                    parseValidationData (JSON_parse env) (response result) = Inr validationData
                    \<and> newExpense env s validationData = Inl e)))
      \<longrightarrow> validationError (handleSubmitExpense env s) = Some ''Network error occurred''
          \<and> expenses (handleSubmitExpense env s) = expenses s)
   \<and> (validationError (handleSubmitExpense env s) \<noteq> None
      \<longrightarrow> expenses (handleSubmitExpense env s) = expenses s)"
proof (intro conjI impI)
  assume a: "coordinatorCall env s = Inr result \<and> \<not> (success result \<and> truthy (response result))"
  show "validationError (handleSubmitExpense env s)
          = Some (case error result of
                    None \<Rightarrow> ''Validation failed''
                  | Some m \<Rightarrow> if m = '''' then ''Validation failed'' else m)"
    using a submit_reported_failure(2) [of env s result] by simp
  show "expenses (handleSubmitExpense env s) = expenses s"
    using a submit_reported_failure(1) [of env s result] by simp
next
  assume b: "coordinatorCall env s = Inr result \<and> success result \<and> truthy (response result)
        \<and> (\<forall>t. getProp (response result) ''response'' \<noteq> Inr (JString t))
        \<and> (\<forall>v. getProp (response result) ''result'' = Inr v \<longrightarrow> \<not> truthy v)"
  show inv: "parseValidationData (JSON_parse env) (response result)
               = Inl (Error ''Invalid response structure'')"
  proof -
    from b obtain other where o: "getProp (response result) ''response'' = Inr other"
      by (cases "response result") simp_all
    from b obtain r where r: "getProp (response result) ''result'' = Inr r"
      by (cases "response result") simp_all
    from b o have "\<forall>t. other \<noteq> JString t" by simp
    moreover from b r have "\<not> truthy r" by simp
    ultimately show ?thesis
      using o r by (cases other) (simp_all add: parseValidationData_def)
  qed
  show "validationError (handleSubmitExpense env s) = Some ''Network error occurred''"
    using b inv submit_thrown(2) [of env s "Error ''Invalid response structure''"] by simp
  show "expenses (handleSubmitExpense env s) = expenses s"
    using b inv submit_thrown(1) [of env s "Error ''Invalid response structure''"] by simp
next
  assume c: "coordinatorCall env s = Inl e
        \<or> (coordinatorCall env s = Inr result \<and> success result \<and> truthy (response result)
           \<and> (parseValidationData (JSON_parse env) (response result) = Inl e
              \<or> (\<exists>validationData.
                    parseValidationData (JSON_parse env) (response result) = Inr validationData
                    \<and> newExpense env s validationData = Inl e)))"
  then have c': "coordinatorCall env s = Inl e
           \<or> (\<exists>result. coordinatorCall env s = Inr result
                 \<and> success result \<and> truthy (response result)
                 \<and> (parseValidationData (JSON_parse env) (response result) = Inl e
                    \<or> (\<exists>validationData.
                          parseValidationData (JSON_parse env) (response result) = Inr validationData
                          \<and> newExpense env s validationData = Inl e)))"
    by (elim disjE) (rule disjI1, assumption, rule disjI2, rule exI [of _ result], assumption)
  show "validationError (handleSubmitExpense env s) = Some ''Network error occurred''"
    using submit_thrown(2) [OF c'] .
  show "expenses (handleSubmitExpense env s) = expenses s"
    using submit_thrown(1) [OF c'] .
next
  assume "validationError (handleSubmitExpense env s) \<noteq> None"
  then show "expenses (handleSubmitExpense env s) = expenses s"
    using submit_cases [of env s] by (elim disjE exE conjE) simp_all
qed

theorem submission_failures_witness:
  "validationError (handleSubmitExpense (demoEnv agentFails) filledForm) = Some ''Agent unavailable''
   \<and> expenses (handleSubmitExpense (demoEnv agentFails) filledForm) = expenses filledForm
   \<and> parseValidationData demoParse (JObject [(''message'', JString ''done'')])
       = Inl (Error ''Invalid response structure'')
   \<and> validationError (handleSubmitExpense (demoEnv agentUnrecognized) filledForm)
       = Some ''Network error occurred''
   \<and> expenses (handleSubmitExpense (demoEnv agentUnrecognized) filledForm) = expenses filledForm
   \<and> validationError (handleSubmitExpense (demoEnv agentThrows) filledForm)
       = Some ''Network error occurred''
   \<and> expenses (handleSubmitExpense (demoEnv agentThrows) filledForm) = expenses filledForm"
  using submission_failures [of "demoEnv agentFails" filledForm
          "\<lparr> success = False, response = JUndefined, error = Some ''Agent unavailable'' \<rparr>" NetworkFailure]
        submission_failures [of "demoEnv agentUnrecognized" filledForm
          "\<lparr> success = True, response = JObject [(''message'', JString ''done'')], error = None \<rparr>"
          NetworkFailure]
        submission_failures [of "demoEnv agentThrows" filledForm
          "\<lparr> success = False, response = JUndefined, error = None \<rparr>" NetworkFailure]
  by (simp add: demo_call agentFails_def agentUnrecognized_def agentThrows_def)

section \<open>Identifiers\<close>

lemma digitValue_digit:
  assumes "d < 10"
  shows "digitValue (digit d) = d"
proof -
  from assms have "d = 0 \<or> d = 1 \<or> d = 2 \<or> d = 3 \<or> d = 4 \<or> d = 5 \<or> d = 6 \<or> d = 7 \<or> d = 8 \<or> d = 9"
    by arith
  then show ?thesis
    by (elim disjE) (simp_all add: digit_def digitValue_def)
qed

lemma digitsValue_snoc: "digitsValue (ds @ [c]) = 10 * digitsValue ds + digitValue c"
  by (simp add: digitsValue_def)

lemma digitsValue_String_nat: "digitsValue (String_nat n) = n"
proof (induction n rule: String_nat.induct)
  case (1 n)
  show ?case
  proof (cases "n < 10")
    case True
    then have "String_nat n = [digit n]" by (subst String_nat.simps) simp
    then show ?thesis using True by (simp add: digitsValue_def digitValue_digit)
  next
    case False
    then have "String_nat n = String_nat (n div 10) @ [digit (n mod 10)]"
      by (subst String_nat.simps) simp
    then show ?thesis
      using "1.IH" [OF False] by (simp add: digitsValue_snoc digitValue_digit)
  qed
qed

lemma digitsValue_zeros: "foldl (\<lambda>acc c. 10 * acc + digitValue c) 0 (replicate k (CHR ''0'')) = 0"
  by (induction k) (simp_all add: digitValue_def)

lemma digitsValue_padStart: "digitsValue (padStart k (CHR ''0'') ds) = digitsValue ds"
  by (simp add: padStart_def digitsValue_def digitsValue_zeros)

text \<open>The identifier determines the list length it was built from.\<close>

lemma drop_newId: "drop 9 (newId len) = padStart 3 (CHR ''0'') (String_nat (len + 1))"
  by (simp add: newId_def)

lemma digitsValue_newId: "digitsValue (drop 9 (newId len)) = len + 1"
  by (simp only: drop_newId digitsValue_padStart digitsValue_String_nat)

lemma newId_inj:
  assumes "newId m = newId n"
  shows "m = n"
proof -
  have "m + 1 = digitsValue (drop 9 (newId m))"
    by (simp only: digitsValue_newId)
  also have "\<dots> = digitsValue (drop 9 (newId n))"
    by (simp only: assms)
  also have "\<dots> = n + 1"
    by (simp only: digitsValue_newId)
  finally show ?thesis by simp
qed

lemma distinct_newIds: "distinct (map newId (rev [0..<n]))"
proof -
  have "inj_on newId (set (rev [0..<n]))"
    by (rule inj_onI) (rule newId_inj)
  then show ?thesis by (simp add: distinct_map)
qed

section \<open>Manager decision\<close>

lemma updateStatus_ok:
  assumes "getProp approvalData ''expense_status'' = Inr st"
  shows "updateStatus approvalData sid exps
           = Inr (map (\<lambda>e. if id' e = sid then e\<lparr>status := st\<rparr> else e) exps)"
  using assms by (induction exps) simp_all

lemma updateStatus_no_match:
  assumes "updateStatus approvalData sid exps = Inr exps'"
    and "getProp approvalData ''expense_status'' = Inl err"
  shows "exps' = exps \<and> sid \<notin> id' ` set exps"
  using assms
  by (induction exps arbitrary: exps') (auto split: if_splits sum.splits)

lemma updateStatus_shape:
  assumes "updateStatus approvalData sid exps = Inr exps'"
  shows "\<exists>st. exps' = map (\<lambda>e. if id' e = sid then e\<lparr>status := st\<rparr> else e) exps"
proof (cases "getProp approvalData ''expense_status''")
  case (Inl err)
  from updateStatus_no_match [OF assms Inl]
  have "exps' = exps" and "\<forall>e\<in>set exps. id' e \<noteq> sid" by auto
  then have "exps' = map (\<lambda>e. if id' e = sid then e\<lparr>status := JUndefined\<rparr> else e) exps"
    by (simp add: map_idI)
  then show ?thesis by blast
next
  case (Inr st)
  from updateStatus_ok [OF Inr, of sid exps] assms show ?thesis by auto
qed

lemma decision_no_selection:
  "selectedExpense s = None \<Longrightarrow> handleApprovalDecision env s d = Inr s"
  by (simp add: handleApprovalDecision_def)

lemma decision_failure:
  assumes "selectedExpense s = Some sel"
    and "approvalCall env s sel d = Inl e
         \<or> (approvalCall env s sel d = Inr result
            \<and> (\<not> success result \<or> \<not> truthy (response result)
               \<or> parseApprovalData (JSON_parse env) (response result) = Inl e))"
  shows "handleApprovalDecision env s d = Inr (s\<lparr>isProcessingApproval := False, approvalResult := JNull\<rparr>)"
  using assms by (auto simp: handleApprovalDecision_def Let_def)

lemma decision_success:
  assumes "selectedExpense s = Some sel"
    and "approvalCall env s sel d = Inr result"
    and "success result" and "truthy (response result)"
    and "parseApprovalData (JSON_parse env) (response result) = Inr approvalData"
  shows "handleApprovalDecision env s d =
           (case updateStatus approvalData (id' sel) (expenses s) of
              Inl err \<Rightarrow> Inl err
            | Inr exps \<Rightarrow> Inr (s\<lparr>isProcessingApproval := False, approvalResult := approvalData,
                                  expenses := exps, managerRationale := ''''\<rparr>))"
  using assms by (simp add: handleApprovalDecision_def Let_def split: sum.splits)

text \<open>Every run of the handler that returns a state is one of the two.\<close>

lemma decision_cases:
  assumes "handleApprovalDecision env s d = Inr s'"
  shows "(expenses s' = expenses s \<and> managerRationale s' = managerRationale s
          \<and> selectedExpense s' = selectedExpense s)
       \<or> (\<exists>sel result approvalData exps.
             selectedExpense s = Some sel \<and> approvalCall env s sel d = Inr result
           \<and> success result \<and> truthy (response result)
           \<and> parseApprovalData (JSON_parse env) (response result) = Inr approvalData
           \<and> updateStatus approvalData (id' sel) (expenses s) = Inr exps
           \<and> s' = s\<lparr>isProcessingApproval := False, approvalResult := approvalData,
                     expenses := exps, managerRationale := ''''\<rparr>)"
proof (cases "selectedExpense s")
  case None
  then show ?thesis using assms decision_no_selection [of s env d] by simp
next
  case (Some sel)
  show ?thesis
  proof (cases "approvalCall env s sel d")
    case (Inl e)
    then show ?thesis using assms decision_failure [of s sel env d e] Some by auto
  next
    case (Inr result)
    show ?thesis
    proof (cases "success result \<and> truthy (response result)")
      case False
      then show ?thesis using assms decision_failure [of s sel env d _ result] Some Inr by auto
    next
      case True
      show ?thesis
      proof (cases "parseApprovalData (JSON_parse env) (response result)")
        case (Inl e)
        then show ?thesis using assms decision_failure [of s sel env d e result] Some Inr by auto
      next
        case pa: (Inr approvalData)
        from decision_success [OF Some Inr _ _ pa] True assms
        obtain exps where "updateStatus approvalData (id' sel) (expenses s) = Inr exps"
          and "s' = s\<lparr>isProcessingApproval := False, approvalResult := approvalData,
                      expenses := exps, managerRationale := ''''\<rparr>"
          by (cases "updateStatus approvalData (id' sel) (expenses s)") simp_all
        then show ?thesis using Some Inr True pa by blast
      qed
    qed
  qed
qed

section \<open>Reachable states\<close>

lemma idsInOrder_initial: "idsInOrder initialState"
  by (simp add: idsInOrder_def initialState_def initialExpenses_def)

lemma change_frame:
  "expenses (handleExpenseDataChange f v s) = expenses s"
  "selectedExpense (handleExpenseDataChange f v s) = selectedExpense s"
  by (cases f; simp)+

lemma idsInOrder_submit:
  assumes "idsInOrder s"
  shows "idsInOrder (handleSubmitExpense env s)"
proof -
  from submit_cases [of env s]
  consider (stored) ne where "expenses (handleSubmitExpense env s) = ne # expenses s"
      and "id' ne = newId (length (expenses s))"
    | (kept) "expenses (handleSubmitExpense env s) = expenses s"
    using newExpense_fields(1) by blast
  then show ?thesis
  proof cases
    case stored
    then show ?thesis
      using assms by (auto simp: idsInOrder_def submit_frame)
  next
    case kept
    then show ?thesis
      using assms by (simp add: idsInOrder_def submit_frame)
  qed
qed

lemma idsInOrder_decide:
  assumes "idsInOrder s" and "handleApprovalDecision env s d = Inr s'"
  shows "idsInOrder s'"
proof -
  from decision_cases [OF assms(2)]
  have "map id' (expenses s') = map id' (expenses s) \<and> selectedExpense s' = selectedExpense s"
  proof (elim disjE exE conjE)
    fix sel result approvalData exps
    assume u: "updateStatus approvalData (id' sel) (expenses s) = Inr exps"
      and s': "s' = s\<lparr>isProcessingApproval := False, approvalResult := approvalData,
                        expenses := exps, managerRationale := ''''\<rparr>"
    from updateStatus_shape [OF u] obtain st
      where "exps = map (\<lambda>e. if id' e = id' sel then e\<lparr>status := st\<rparr> else e) (expenses s)"
      by blast
    then have "map id' exps = map id' (expenses s)"
      by (simp add: comp_def if_distrib cong: if_cong)
    then show ?thesis using s' by simp
  qed simp
  then have "map id' (expenses s') = map id' (expenses s)"
    and "selectedExpense s' = selectedExpense s"
    and "length (expenses s') = length (expenses s)"
    and "id' ` set (expenses s') = id' ` set (expenses s)"
    by (simp_all, metis length_map, metis set_map)
  then show ?thesis
    using assms(1) by (simp add: idsInOrder_def)
qed

lemma idsInOrder_step:
  assumes "step s s'" and "idsInOrder s"
  shows "idsInOrder s'"
  using assms
proof (cases rule: step.cases)
  case (step_change f v)
  then show ?thesis using assms(2) by (simp add: idsInOrder_def change_frame)
next
  case (step_submit env)
  then show ?thesis using assms(2) idsInOrder_submit by simp
next
  case (step_filter v)
  then show ?thesis using assms(2) by (simp add: idsInOrder_def)
next
  case (step_select_row e)
  then show ?thesis using assms(2) by (auto simp: idsInOrder_def filteredExpenses_def)
next
  case (step_select_card e)
  then show ?thesis using assms(2) by (auto simp: idsInOrder_def pendingExpenses_def)
next
  case (step_rationale r)
  then show ?thesis using assms(2) by (simp add: idsInOrder_def)
next
  case (step_decide env d)
  then show ?thesis using assms(2) idsInOrder_decide by blast
qed

lemma reachable_idsInOrder:
  assumes "reachable s"
  shows "idsInOrder s"
  using assms unfolding reachable_def
  by (induction rule: rtranclp_induct) (auto intro: idsInOrder_initial idsInOrder_step)

lemma reachable_step: "reachable s \<Longrightarrow> step s s' \<Longrightarrow> reachable s'"
  unfolding reachable_def by (rule rtranclp.rtrancl_into_rtrancl)

lemma reachable_initial: "reachable initialState"
  unfolding reachable_def by (rule rtranclp.rtrancl_refl)

text \<open>
  C10: in every reachable state no two records of the list share an identifier, and the
  record at index \<open>i\<close> of a list of length \<open>n\<close> carries the identifier built when the
  list had length \<open>n - 1 - i\<close>, that is \<^verbatim>\<open>EXP-2026-\<close> followed by the zero-padded
  successor of that length.
\<close>

theorem identifiers_distinct:
  assumes "reachable s"
  shows "distinct (map id' (expenses s))
       \<and> (\<forall>i<length (expenses s).
             id' (expenses s ! i)
               = ''EXP-2026-'' @ padStart 3 (CHR ''0'') (String_nat (length (expenses s) - Suc i + 1)))"
proof -
  from reachable_idsInOrder [OF assms]
  have ids: "map id' (expenses s) = map newId (rev [0..<length (expenses s)])"
    by (simp add: idsInOrder_def)
  have "distinct (map id' (expenses s))"
    using distinct_newIds [of "length (expenses s)"] ids by simp
  moreover have "id' (expenses s ! i)
      = ''EXP-2026-'' @ padStart 3 (CHR ''0'') (String_nat (length (expenses s) - Suc i + 1))"
    if "i < length (expenses s)" for i
  proof -
    have "id' (expenses s ! i) = map id' (expenses s) ! i"
      using that by simp
    also have "\<dots> = newId (rev [0..<length (expenses s)] ! i)"
      using that by (simp only: ids) simp
    also have "rev [0..<length (expenses s)] ! i = length (expenses s) - Suc i"
      using that by (simp add: rev_nth)
    finally show ?thesis by (simp add: newId_def)
  qed
  ultimately show ?thesis by blast
qed

section \<open>The sample session\<close>

lemma submit_flags:
  "isProcessingApproval (handleSubmitExpense env s) = isProcessingApproval s"
  "expenseData (handleSubmitExpense env s) = expenseData s"
  "isValidating (handleSubmitExpense env s) = False"
  by (auto simp: submit_unfold submitTry_def Let_def runStages_eq split: sum.splits prod.splits)

lemma filledForm_reachable: "reachable filledForm"
  unfolding filledForm_def
  by (intro reachable_step [OF _ step_change] reachable_initial)

lemma filledForm_enabled: "\<not> submitDisabled filledForm"
  by (simp add: submitDisabled_def filledForm_def initialState_def)

lemma afterSubmit_reachable: "reachable afterSubmit"
  unfolding afterSubmit_def
  by (rule reachable_step [OF filledForm_reachable step_submit [OF filledForm_enabled]])

lemma afterSubmit_fields:
  "selectedExpense afterSubmit = None"
  "statusFilter afterSubmit = ''all''"
  "managerRationale afterSubmit = ''''"
  "isProcessingApproval afterSubmit = False"
  "isValidating afterSubmit = False"
  "expenseData afterSubmit = expenseData filledForm"
  by (simp_all add: afterSubmit_def submit_frame submit_flags filledForm_def initialState_def)

lemma afterSubmit_enabled: "\<not> submitDisabled afterSubmit"
  by (simp add: submitDisabled_def afterSubmit_fields filledForm_fields)

lemma secondSubmit_newExpense:
  "newExpense (demoEnv outcome) afterSubmit autoApprovePayload
     = Inr (storedRecord\<lparr>id' := ''EXP-2026-002''\<rparr>)"
  by (simp add: newExpense_def demo_call demo_payload afterSubmit_fields filledForm_fields
        storedRecord_def afterSubmit_expenses demoParseFloat_def newId_values)

lemma secondSubmit_expenses:
  "expenses (handleSubmitExpense (demoEnv coordinatorApproves) afterSubmit)
     = [storedRecord\<lparr>id' := ''EXP-2026-002''\<rparr>, storedRecord]"
  using submit_success(1) [of "demoEnv coordinatorApproves" afterSubmit
      "\<lparr> success = True, response = JObject [(''result'', autoApprovePayload)], error = None \<rparr>"
      autoApprovePayload "storedRecord\<lparr>id' := ''EXP-2026-002''\<rparr>"]
  by (simp add: demo_call demo_payload secondSubmit_newExpense coordinatorApproves_def
        afterSubmit_expenses)

lemma secondSubmit_reachable:
  "reachable (handleSubmitExpense (demoEnv coordinatorApproves) afterSubmit)"
  by (rule reachable_step [OF afterSubmit_reachable step_submit [OF afterSubmit_enabled]])

lemma underReview_fields:
  "selectedExpense underReview = Some storedRecord"
  "expenses underReview = [storedRecord]"
  "managerRationale underReview = ''duplicate claim''"
  "isProcessingApproval underReview = False"
  by (simp_all add: underReview_def afterSubmit_expenses afterSubmit_fields)

lemma underReview_reachable: "reachable underReview"
proof -
  have "storedRecord \<in> set (filteredExpenses (expenses afterSubmit) (statusFilter afterSubmit))"
    by (simp add: afterSubmit_expenses afterSubmit_fields filteredExpenses_def)
  then have sel: "reachable (afterSubmit\<lparr>selectedExpense := Some storedRecord\<rparr>)"
    by (rule reachable_step [OF afterSubmit_reachable step_select_row])
  have "reachable ((afterSubmit\<lparr>selectedExpense := Some storedRecord\<rparr>)\<lparr>managerRationale := ''duplicate claim''\<rparr>)"
    by (rule reachable_step [OF sel step_rationale]) simp
  then show ?thesis by (simp add: underReview_def)
qed

lemma underReview_enabled: "selectedExpense underReview \<noteq> None" "\<not> decisionDisabled underReview"
  by (simp_all add: decisionDisabled_def underReview_fields)

lemma demo_approval_payloads:
  "parseApprovalData demoParse
     (JObject [(''result'', rejectionPayload)])
     = Inr (rejectionPayload)"
  "getProp (rejectionPayload)
     ''expense_status'' = Inr (JString ''rejected'')"
  \<open>parseApprovalData demoParse (JObject [(''response'', JString ''{"status":"ok"}'')])
     = Inr JUndefined\<close>
  by (simp_all add: parseApprovalData_def demoParse_def rejectionPayload_def)

lemma demo_reject:
  "handleApprovalDecision (demoEnv managerRejects) underReview Reject = Inr afterReject"
proof -
  have "updateStatus (rejectionPayload)
          (id' storedRecord) (expenses underReview)
        = Inr [storedRecord\<lparr>status := JString ''rejected''\<rparr>]"
    by (simp add: underReview_fields demo_approval_payloads)
  then show ?thesis
    using decision_success [of underReview storedRecord "demoEnv managerRejects" Reject
        "\<lparr> success = True,
           response = JObject [(''result'', rejectionPayload)],
           error = None \<rparr>"
        "rejectionPayload"]
    by (simp add: underReview_fields demo_call demo_approval_payloads managerRejects_def
          afterReject_def)
qed


text \<open>
  When the agent's text parses but has no \<^verbatim>\<open>result\<close> field, the payload is
  \<^verbatim>\<open>undefined\<close>: the handler itself completes, and the state updater then throws on the
  selected record, outside the \<^verbatim>\<open>try\<close> block.
\<close>

lemma undefined_payload_updater_throws:
  "handleApprovalDecision (demoEnv managerOmitsResult) underReview Approve = Inl TypeError"
  using decision_success [of underReview storedRecord "demoEnv managerOmitsResult" Approve
      \<open>\<lparr> success = True, response = JObject [(''response'', JString ''{"status":"ok"}'')],
          error = None \<rparr>\<close> JUndefined]
  by (simp add: underReview_fields demo_call demo_approval_payloads managerOmitsResult_def)

theorem identifiers_distinct_witness:
  "reachable (handleSubmitExpense (demoEnv coordinatorApproves) afterSubmit)
   \<and> map id' (expenses (handleSubmitExpense (demoEnv coordinatorApproves) afterSubmit))
       = [''EXP-2026-002'', ''EXP-2026-001'']
   \<and> distinct (map id' (expenses (handleSubmitExpense (demoEnv coordinatorApproves) afterSubmit)))"
  using identifiers_distinct [OF secondSubmit_reachable] secondSubmit_reachable
  by (simp add: secondSubmit_expenses storedRecord_def)

section \<open>The effect of a manager decision\<close>

text \<open>
  C3: in a reachable state with a selected record, when the approval call succeeds, its
  payload is located and carries \<^verbatim>\<open>expense_status\<close> \<open>st\<close>, the handler returns a state
  whose list has the same length; exactly one index holds a record with the selected
  identifier; that record is the old one with only its status set to \<open>st\<close>, and the
  record at every other index is the old one.
\<close>

theorem decision_overwrites_one_status:
  assumes "reachable s"
    and "selectedExpense s = Some sel"
    and "approvalCall env s sel d = Inr result"
    and "success result" and "truthy (response result)"
    and "parseApprovalData (JSON_parse env) (response result) = Inr approvalData"
    and "getProp approvalData ''expense_status'' = Inr st"
  shows "\<exists>s'. handleApprovalDecision env s d = Inr s'
          \<and> length (expenses s') = length (expenses s)
          \<and> (\<exists>!i. i < length (expenses s) \<and> id' (expenses s ! i) = id' sel)
          \<and> (\<forall>i<length (expenses s).
                expenses s' ! i = (if id' (expenses s ! i) = id' sel
                                   then (expenses s ! i)\<lparr>status := st\<rparr>
                                   else expenses s ! i))"
proof -
  let ?upd = "map (\<lambda>e. if id' e = id' sel then e\<lparr>status := st\<rparr> else e) (expenses s)"
  let ?s' = "s\<lparr>isProcessingApproval := False, approvalResult := approvalData,
                expenses := ?upd, managerRationale := ''''\<rparr>"
  have run: "handleApprovalDecision env s d = Inr ?s'"
    using decision_success [OF assms(2-6)] updateStatus_ok [OF assms(7), of "id' sel" "expenses s"]
    by simp
  from reachable_idsInOrder [OF assms(1)] assms(2)
  have ids: "map id' (expenses s) = map newId (rev [0..<length (expenses s)])"
    and mem: "id' sel \<in> id' ` set (expenses s)"
    by (simp_all add: idsInOrder_def)
  have dist: "distinct (map id' (expenses s))"
    using distinct_newIds [of "length (expenses s)"] ids by simp
  from mem obtain i where i: "i < length (expenses s)" "id' (expenses s ! i) = id' sel"
    by (auto simp: in_set_conv_nth)
  have uniq: "j = i" if "j < length (expenses s)" "id' (expenses s ! j) = id' sel" for j
  proof -
    have "map id' (expenses s) ! j = map id' (expenses s) ! i"
      using that i by simp
    then show ?thesis
      using dist that(1) i(1) by (simp add: nth_eq_iff_index_eq del: nth_map)
  qed
  have one: "\<exists>!i. i < length (expenses s) \<and> id' (expenses s ! i) = id' sel"
    using i uniq by blast
  have "length (expenses ?s') = length (expenses s)"
    by simp
  moreover have "\<forall>i<length (expenses s).
      expenses ?s' ! i = (if id' (expenses s ! i) = id' sel
                          then (expenses s ! i)\<lparr>status := st\<rparr> else expenses s ! i)"
    by simp
  ultimately show ?thesis using run one by blast
qed

theorem decision_overwrites_one_status_witness:
  "handleApprovalDecision (demoEnv managerRejects) underReview Reject = Inr afterReject
   \<and> expenses underReview = [storedRecord]
   \<and> expenses afterReject = [storedRecord\<lparr>status := JString ''rejected''\<rparr>]"
proof -
  have "\<exists>s'. handleApprovalDecision (demoEnv managerRejects) underReview Reject = Inr s'
          \<and> length (expenses s') = length (expenses underReview)
          \<and> (\<exists>!i. i < length (expenses underReview)
                    \<and> id' (expenses underReview ! i) = id' storedRecord)
          \<and> (\<forall>i<length (expenses underReview).
                expenses s' ! i = (if id' (expenses underReview ! i) = id' storedRecord
                                   then (expenses underReview ! i)\<lparr>status := JString ''rejected''\<rparr>
                                   else expenses underReview ! i))"
    using decision_overwrites_one_status [OF underReview_reachable underReview_fields(1),
        where env = "demoEnv managerRejects" and d = Reject
          and result = "\<lparr> success = True,
             response = JObject [(''result'', rejectionPayload)],
             error = None \<rparr>"
          and approvalData = "rejectionPayload"
          and st = "JString ''rejected''"]
    by (simp add: demo_call managerRejects_def demo_approval_payloads)
  then show ?thesis
    by (simp add: demo_reject underReview_fields afterReject_def)
qed

text \<open>
  A decision attempt that fails inside the \<^verbatim>\<open>try\<close> (the call throws, the call reports
  failure or returns no envelope, or locating the payload throws, which includes the
  unrecognized shape) returns the state it started from with only the processing flag and
  the last approval result reset: the list, the rationale and the validation error are
  unchanged.  Without a selected record nothing changes at all.  And whenever the handler
  returns a state with another rationale, the call had succeeded and its payload had been
  located.
\<close>

lemma decision_failures_silent:
  "(selectedExpense s = Some sel
      \<and> (approvalCall env s sel d = Inl e
         \<or> (approvalCall env s sel d = Inr result
            \<and> (\<not> success result \<or> \<not> truthy (response result)
               \<or> parseApprovalData (JSON_parse env) (response result) = Inl e)))
    \<longrightarrow> (\<exists>s'. handleApprovalDecision env s d = Inr s'
            \<and> s' = s\<lparr>isProcessingApproval := False, approvalResult := JNull\<rparr>
            \<and> expenses s' = expenses s
            \<and> managerRationale s' = managerRationale s
            \<and> validationError s' = validationError s))
   \<and> (selectedExpense s = None \<longrightarrow> handleApprovalDecision env s d = Inr s)
   \<and> (handleApprovalDecision env s d = Inr t \<and> managerRationale t \<noteq> managerRationale s
    \<longrightarrow> (\<exists>sl res approvalData.
            selectedExpense s = Some sl \<and> approvalCall env s sl d = Inr res
          \<and> success res \<and> truthy (response res)
          \<and> parseApprovalData (JSON_parse env) (response res) = Inr approvalData
          \<and> managerRationale t = ''''))"
proof (intro conjI impI)
  assume "selectedExpense s = Some sel
      \<and> (approvalCall env s sel d = Inl e
         \<or> (approvalCall env s sel d = Inr result
            \<and> (\<not> success result \<or> \<not> truthy (response result)
               \<or> parseApprovalData (JSON_parse env) (response result) = Inl e)))"
  then have "handleApprovalDecision env s d
               = Inr (s\<lparr>isProcessingApproval := False, approvalResult := JNull\<rparr>)"
    using decision_failure [of s sel env d e result] by simp
  then show "\<exists>s'. handleApprovalDecision env s d = Inr s'
            \<and> s' = s\<lparr>isProcessingApproval := False, approvalResult := JNull\<rparr>
            \<and> expenses s' = expenses s
            \<and> managerRationale s' = managerRationale s
            \<and> validationError s' = validationError s"
    by simp
next
  assume "selectedExpense s = None"
  then show "handleApprovalDecision env s d = Inr s"
    by (rule decision_no_selection)
next
  assume a: "handleApprovalDecision env s d = Inr t \<and> managerRationale t \<noteq> managerRationale s"
  then have run: "handleApprovalDecision env s d = Inr t"
    and ch: "managerRationale t \<noteq> managerRationale s"
    by simp_all
  from decision_cases [OF run]
  show "\<exists>sl res approvalData.
            selectedExpense s = Some sl \<and> approvalCall env s sl d = Inr res
          \<and> success res \<and> truthy (response res)
          \<and> parseApprovalData (JSON_parse env) (response res) = Inr approvalData
          \<and> managerRationale t = ''''"
  proof (elim disjE exE conjE)
    assume "managerRationale t = managerRationale s"
    with ch show ?thesis by simp
  next
    fix sl res approvalData exps
    assume b: "selectedExpense s = Some sl" "approvalCall env s sl d = Inr res"
      "success res" "truthy (response res)"
      "parseApprovalData (JSON_parse env) (response res) = Inr approvalData"
      and t: "t = s\<lparr>isProcessingApproval := False, approvalResult := approvalData,
                      expenses := exps, managerRationale := ''''\<rparr>"
    from t have "managerRationale t = ''''" by simp
    with b show ?thesis
      by (intro exI [of _ sl] exI [of _ res] exI [of _ approvalData] conjI)
  qed
qed

lemma decision_failures_silent_examples:
  "handleApprovalDecision (demoEnv agentThrows) underReview Approve
     = Inr (underReview\<lparr>isProcessingApproval := False, approvalResult := JNull\<rparr>)
   \<and> handleApprovalDecision (demoEnv agentFails) underReview Approve
     = Inr (underReview\<lparr>isProcessingApproval := False, approvalResult := JNull\<rparr>)
   \<and> handleApprovalDecision (demoEnv agentUnrecognized) underReview Approve
     = Inr (underReview\<lparr>isProcessingApproval := False, approvalResult := JNull\<rparr>)
   \<and> handleApprovalDecision (demoEnv agentThrows) filledForm Approve = Inr filledForm
   \<and> managerRationale afterReject \<noteq> managerRationale underReview
   \<and> (\<exists>sl res approvalData.
         selectedExpense underReview = Some sl
       \<and> approvalCall (demoEnv managerRejects) underReview sl Reject = Inr res
       \<and> success res \<and> truthy (response res)
       \<and> parseApprovalData (JSON_parse (demoEnv managerRejects)) (response res) = Inr approvalData
       \<and> managerRationale afterReject = '''')"
proof -
  have unrec: "parseApprovalData demoParse (JObject [(''message'', JString ''done'')])
                 = Inl (Error ''Invalid response structure'')"
    by (simp add: parseApprovalData_def)
  have ch: "managerRationale afterReject \<noteq> managerRationale underReview"
    by (simp add: afterReject_def underReview_def)
  show ?thesis
    using decision_failures_silent [of underReview storedRecord "demoEnv agentThrows" Approve
            NetworkFailure "\<lparr> success = False, response = JUndefined, error = None \<rparr>"
            underReview]
          decision_failures_silent [of underReview storedRecord "demoEnv agentFails" Approve
            NetworkFailure
            "\<lparr> success = False, response = JUndefined, error = Some ''Agent unavailable'' \<rparr>"
            underReview]
          decision_failures_silent [of underReview storedRecord "demoEnv agentUnrecognized" Approve
            "Error ''Invalid response structure''"
            "\<lparr> success = True, response = JObject [(''message'', JString ''done'')], error = None \<rparr>"
            underReview]
          decision_failures_silent [of filledForm storedRecord "demoEnv agentThrows" Approve
            NetworkFailure "\<lparr> success = False, response = JUndefined, error = None \<rparr>"
            filledForm]
          decision_failures_silent [of underReview storedRecord "demoEnv managerRejects" Reject
            NetworkFailure "\<lparr> success = False, response = JUndefined, error = None \<rparr>"
            afterReject]
          demo_reject ch unrec
    by (simp add: underReview_fields filledForm_fields demo_call agentThrows_def agentFails_def
          agentUnrecognized_def)
qed

text \<open>
  C4 does not hold for one failing attempt.  In the sample session a record is selected
  and the buttons are enabled; the agent answers with a text that parses but has no
  \<^verbatim>\<open>result\<close> field.  The first branch takes \<^verbatim>\<open>parsedResponse.result\<close> without the test
  that the second branch applies to \<^verbatim>\<open>result.response.result\<close>, so the payload is
  \<^verbatim>\<open>undefined\<close>; the handler goes on to its three setters, the last of which clears the
  rationale, and the state updater then throws a TypeError on the selected record, outside
  the \<^verbatim>\<open>try\<close>: the attempt does not end in a state.  The same answer held directly by
  the envelope is refused by the second branch, and that attempt is silent.
\<close>

theorem decision_without_result_field_throws:
  \<open>reachable underReview
   \<and> selectedExpense underReview = Some storedRecord
   \<and> \<not> decisionDisabled underReview
   \<and> approvalCall (demoEnv managerOmitsResult) underReview storedRecord Approve
       = Inr \<lparr> success = True,
               response = JObject [(''response'', JString ''{"status":"ok"}'')],
               error = None \<rparr>
   \<and> JSON_parse (demoEnv managerOmitsResult) ''{"status":"ok"}''
       = Inr (JObject [(''status'', JString ''ok'')])
   \<and> parseApprovalData demoParse (JObject [(''response'', JString ''{"status":"ok"}'')])
       = Inr JUndefined
   \<and> handleApprovalDecision (demoEnv managerOmitsResult) underReview Approve = Inl TypeError
   \<and> parseApprovalData demoParse (JObject [(''status'', JString ''ok'')])
       = Inl (Error ''Invalid response structure'')
   \<and> handleApprovalDecision (demoEnv managerOmitsResultDirectly) underReview Approve
       = Inr (underReview\<lparr>isProcessingApproval := False, approvalResult := JNull\<rparr>)\<close>
proof -
  have direct: "parseApprovalData demoParse (JObject [(''status'', JString ''ok'')])
                  = Inl (Error ''Invalid response structure'')"
    by (simp add: parseApprovalData_def)
  have silent: "handleApprovalDecision (demoEnv managerOmitsResultDirectly) underReview Approve
                  = Inr (underReview\<lparr>isProcessingApproval := False, approvalResult := JNull\<rparr>)"
    using decision_failure [of underReview storedRecord "demoEnv managerOmitsResultDirectly" Approve
        "Error ''Invalid response structure''"
        "\<lparr> success = True, response = JObject [(''status'', JString ''ok'')], error = None \<rparr>"]
    by (simp add: underReview_fields demo_call managerOmitsResultDirectly_def direct)
  show ?thesis
    using underReview_reachable underReview_enabled undefined_payload_updater_throws direct silent
    by (simp add: underReview_fields demo_call demo_approval_payloads managerOmitsResult_def
          demoParse_def)
qed

section \<open>Status transitions\<close>




end
